theory Spec2Isabelle
  imports Main
begin

section \<open>The chess client of src/app/page.tsx\<close>

text \<open>
  The component \<open>ChessGame\<close> keeps its state in React state cells and changes it in two
  kinds of callbacks: the handlers it registers on the socket (one per inbound event) and
  the handlers it passes to the board widget (\<open>handleMove\<close>, \<open>handleSquareClick\<close>,
  \<open>allowDrag\<close>). Each callback is modelled as a function from the component state to the
  new state, together with the messages it emits on the socket. Callbacks run one at a
  time, and every state cell they write is written with a value that does not depend on
  the order of the writes inside one callback, so the state after a callback is the
  record update given here. A setter that has been called keeps its effect when a later
  statement of the same callback throws.

  The effect that registers the socket handlers (lines 73-176) runs again whenever
  \<open>playerColor\<close> changes: it closes the socket and opens a new one with the same
  handlers. The model does not describe this cycle; it describes what each handler does to
  the state it finds, and the theorems below hold for every state.
\<close>

subsection \<open>Data\<close>

text \<open>The type \<open>'white' | 'black'\<close> of the source.\<close>

datatype Color = White | Black

text \<open>A square is the string the board widget passes (\<open>e2\<close>); a position is a FEN string.\<close>

type_synonym square = string
type_synonym fen_string = string

text \<open>\<open>interface GameState\<close> (lines 20-25). Its field \<open>fen\<close> is named \<open>gs_fen\<close> here.\<close>

record GameState =
  gs_fen :: fen_string
  currentTurn :: Color
  playerCount :: int
  gameStarted :: bool

text \<open>
  \<open>interface MoveData\<close> (lines 27-35). The fields \<open>fen\<close>, \<open>currentTurn\<close> and \<open>gameOver\<close>
  carry the prefix \<open>md_\<close>; the field \<open>move\<close> is never read by the component and is left out.
\<close>

record MoveData =
  md_fen :: fen_string
  md_currentTurn :: Color
  md_gameOver :: bool
  inCheck :: bool
  isCheckmate :: bool
  isDraw :: bool

text \<open>
  The payloads of \<open>player-count-update\<close> and \<open>player-disconnected\<close> are untyped objects
  spread over the previous game state (\<open>{ ...prev, ...data }\<close>): a field that is present
  replaces the old value, a field that is absent keeps it.
\<close>

record GameStatePatch =
  p_fen :: "fen_string option"
  p_currentTurn :: "Color option"
  p_playerCount :: "int option"
  p_gameStarted :: "bool option"

text \<open>The value of one entry of \<open>highlightedSquares\<close>.\<close>

record SquareStyle =
  background :: string
  boxShadow :: "string option"

text \<open>
  What the component uses of the rules engine (chess.js, an external library): the piece
  standing on a square and the verbose move list of a square, both for the position the
  \<open>chess\<close> object currently holds, and what \<open>chess.load\<close> does with a FEN string. Only
  \<open>color\<close> of a piece and \<open>to\<close> of a move are read. The engine is a parameter of the
  handlers that call it.

  \<open>chess.load(f)\<close> takes the position \<open>f\<close> when it accepts the string. When it refuses
  it, the object keeps the position it had, and the call either returns \<open>false\<close>
  (chess.js 0.x) or throws (chess.js 1.x), which ends the handler at that statement.
\<close>

datatype LoadOutcome = Loaded | ReturnsFalse | Throws

record Piece =
  pc_color :: string
  pc_type :: string

record Move =
  mv_from :: square
  mv_to :: square

record RulesEngine =
  chess_load :: "fen_string \<Rightarrow> LoadOutcome"
  chess_get :: "fen_string \<Rightarrow> square \<Rightarrow> Piece option"
  chess_moves :: "fen_string \<Rightarrow> square \<Rightarrow> Move list"

text \<open>
  The position chess.js starts from and returns to on \<open>reset()\<close> (its constant
  \<open>DEFAULT_POSITION\<close>): what \<open>chess.fen()\<close> gives at lines 44, 47, 161 and 163.
\<close>

definition DEFAULT_POSITION :: fen_string where
  "DEFAULT_POSITION = ''rnbqkbnr/pppppppp/8/8/8/8/PPPPPPPP/RNBQKBNR w KQkq - 0 1''"

text \<open>
  The state cells of the component (lines 39-55). \<open>socket\<close> is whether the cell holds a
  socket object rather than \<open>null\<close>; \<open>chess\<close> is the position the chess.js object holds:
  the last FEN that \<open>chess.load\<close> has accepted, or the starting position at the beginning
  and after \<open>chess.reset()\<close>. The cell \<open>boardWidth\<close> is layout only and is left out.
\<close>

record ChessGame =
  selectedSquare :: "square option"
  highlightedSquares :: "square \<rightharpoonup> SquareStyle"
  socket :: bool
  chess :: fen_string
  fen :: fen_string
  playerColor :: "Color option"
  gameState :: GameState
  gameStatus :: string
  isConnected :: bool
  error :: string
  gameOver :: bool

text \<open>The messages the component emits on the socket.\<close>

datatype Outbound =
  JoinGame
  | MakeMove square square
  | NewGame

text \<open>The inbound socket events the component subscribes to (lines 78-171).\<close>

datatype Event =
  Connect
  | Disconnect
  | PlayerAssigned Color GameState
  | GameStart fen_string
  | PlayerCountUpdate GameStatePatch
  | MoveMade MoveData
  | GameOver string string
  | GameFull
  | MoveError string
  | PlayerDisconnected GameStatePatch
  | GameReset

subsection \<open>Initial state\<close>

text \<open>The values given to \<open>useState\<close> (lines 39-55).\<close>

definition initial_state :: ChessGame where
  "initial_state =
     \<lparr> selectedSquare = None,
       highlightedSquares = Map.empty,
       socket = False,
       chess = DEFAULT_POSITION,
       fen = DEFAULT_POSITION,
       playerColor = None,
       gameState = \<lparr> gs_fen = DEFAULT_POSITION, currentTurn = White,
                     playerCount = 0, gameStarted = False \<rparr>,
       gameStatus = ''Waiting for players...'',
       isConnected = False,
       error = '''',
       gameOver = False \<rparr>"

text \<open>The effect of lines 73-76: the socket is created and stored.\<close>

definition mount :: "ChessGame \<Rightarrow> ChessGame" where
  "mount s = s\<lparr> socket := True \<rparr>"

subsection \<open>Strings built by the handlers\<close>

text \<open>A colour inside a template literal: the string itself, \<open>null\<close> for no colour.\<close>

fun color_text :: "Color \<Rightarrow> string" where
  "color_text White = ''white''"
| "color_text Black = ''black''"

fun color_option_text :: "Color option \<Rightarrow> string" where
  "color_option_text None = ''null''"
| "color_option_text (Some c) = color_text c"

text \<open>\<open>c === 'white' ? 'White' : 'Black'\<close> (lines 130, 132).\<close>

definition side_name :: "Color \<Rightarrow> string" where
  "side_name c = (if c = White then ''White'' else ''Black'')"

text \<open>\<open>playerColor === 'white' ? 'w' : 'b'\<close> (lines 230, 240, 281).\<close>

definition own_letter :: "Color option \<Rightarrow> string" where
  "own_letter pc = (if pc = Some White then ''w'' else ''b'')"

text \<open>
  The position of the \<open>chess\<close> object after a call \<open>chess.load(f)\<close> that has returned.
\<close>

definition chess_after_load :: "RulesEngine \<Rightarrow> fen_string \<Rightarrow> fen_string \<Rightarrow> fen_string" where
  "chess_after_load eng held f = (if chess_load eng f = Loaded then f else held)"

text \<open>\<open>{ ...prev, ...data }\<close> (lines 110, 154).\<close>

definition spread :: "GameState \<Rightarrow> GameStatePatch \<Rightarrow> GameState" where
  "spread prev d =
     \<lparr> gs_fen = (case p_fen d of None \<Rightarrow> gs_fen prev | Some v \<Rightarrow> v),
       currentTurn = (case p_currentTurn d of None \<Rightarrow> currentTurn prev | Some v \<Rightarrow> v),
       playerCount = (case p_playerCount d of None \<Rightarrow> playerCount prev | Some v \<Rightarrow> v),
       gameStarted = (case p_gameStarted d of None \<Rightarrow> gameStarted prev | Some v \<Rightarrow> v) \<rparr>"

subsection \<open>Socket handlers\<close>

text \<open>\<open>connect\<close> (lines 78-82).\<close>

definition on_connect :: "ChessGame \<Rightarrow> ChessGame \<times> Outbound list" where
  "on_connect s = (s\<lparr> isConnected := True, error := '''' \<rparr>, [JoinGame])"

text \<open>\<open>disconnect\<close> (lines 84-87).\<close>

definition on_disconnect :: "ChessGame \<Rightarrow> ChessGame" where
  "on_disconnect s =
     s\<lparr> isConnected := False, gameStatus := ''Disconnected from server'' \<rparr>"

text \<open>
  \<open>player-assigned\<close> (lines 89-100). \<open>chess.load\<close> is the third statement (line 92): when
  it throws, the colour and the game state have been set and nothing after it runs.
\<close>

definition on_player_assigned ::
  "RulesEngine \<Rightarrow> ChessGame \<Rightarrow> Color \<Rightarrow> GameState \<Rightarrow> ChessGame" where
  "on_player_assigned eng s color gs =
     (let s1 = s\<lparr> playerColor := Some color, gameState := gs \<rparr>
      in if chess_load eng (gs_fen gs) = Throws then s1
         else s1\<lparr> chess := chess_after_load eng (chess s) (gs_fen gs),
                 fen := gs_fen gs,
                 gameStatus :=
                   (if gameStarted gs then ''Game in progress''
                    else ''You are '' @ color_text color @ ''. Waiting for opponent...'') \<rparr>)"

text \<open>
  \<open>game-start\<close> (lines 102-107). \<open>chess.load\<close> is the third statement (line 105): when it
  throws, the started flag and the status have been set and \<open>setFen\<close> is not reached.
\<close>

definition on_game_start :: "RulesEngine \<Rightarrow> ChessGame \<Rightarrow> fen_string \<Rightarrow> ChessGame" where
  "on_game_start eng s f =
     (let s1 = s\<lparr> gameState := (gameState s)\<lparr> gameStarted := True \<rparr>,
                  gameStatus := ''Game started! Good luck!'' \<rparr>
      in if chess_load eng f = Throws then s1
         else s1\<lparr> chess := chess_after_load eng (chess s) f, fen := f \<rparr>)"

text \<open>
  \<open>player-count-update\<close> (lines 109-114). \<open>!data.gameStarted\<close> holds for an absent field
  as for \<open>false\<close>. The handler closes over \<open>playerColor\<close>; the effect that registers it is
  run again whenever \<open>playerColor\<close> changes, so the value is the one of the state.
\<close>

definition on_player_count_update :: "ChessGame \<Rightarrow> GameStatePatch \<Rightarrow> ChessGame" where
  "on_player_count_update s d =
     (let s1 = s\<lparr> gameState := spread (gameState s) d \<rparr>
      in if p_gameStarted d \<noteq> Some True \<and> p_playerCount d = Some 1
         then s1\<lparr> gameStatus :=
                ''You are '' @ color_option_text (playerColor s) @ ''. Waiting for opponent...'' \<rparr>
         else s1)"

text \<open>
  \<open>move-made\<close> (lines 116-134). \<open>chess.load\<close> is the first statement (line 117): when it
  throws, no setter has been called and the state is the one before the event.
\<close>

definition on_move_made :: "RulesEngine \<Rightarrow> ChessGame \<Rightarrow> MoveData \<Rightarrow> ChessGame" where
  "on_move_made eng s d =
     (if chess_load eng (md_fen d) = Throws then s
      else
        (let s1 = s\<lparr> chess := chess_after_load eng (chess s) (md_fen d),
                     fen := md_fen d,
                     gameState := (gameState s)\<lparr> currentTurn := md_currentTurn d \<rparr> \<rparr>
         in if md_gameOver d then
              (let s2 = s1\<lparr> gameOver := True \<rparr>
               in if isCheckmate d then
                    (let winner = (if md_currentTurn d = White then ''Black'' else ''White'')
                     in s2\<lparr> gameStatus := ''Checkmate! '' @ winner @ '' wins!'' \<rparr>)
                  else if isDraw d then s2\<lparr> gameStatus := ''Game ended in a draw'' \<rparr>
                  else s2)
            else if inCheck d then
              s1\<lparr> gameStatus := side_name (md_currentTurn d) @ '' is in check!'' \<rparr>
            else
              s1\<lparr> gameStatus := side_name (md_currentTurn d) @ [CHR 0x27] @ ''s turn'' \<rparr>))"

text \<open>\<open>game-over\<close> (lines 136-143); the payload carries \<open>result\<close> and \<open>reason\<close>.\<close>

definition on_game_over :: "ChessGame \<Rightarrow> string \<Rightarrow> string \<Rightarrow> ChessGame" where
  "on_game_over s result reason =
     (let s1 = s\<lparr> gameOver := True \<rparr>
      in if result = ''draw'' then s1\<lparr> gameStatus := ''Game ended in a draw'' \<rparr>
         else s1\<lparr> gameStatus :=
                (if result = ''white'' then ''White'' else ''Black'')
                @ '' wins by '' @ reason @ ''!'' \<rparr>)"

text \<open>\<open>game-full\<close> (lines 145-147).\<close>

definition on_game_full :: "ChessGame \<Rightarrow> ChessGame" where
  "on_game_full s = s\<lparr> error := ''Game is full. Only 2 players allowed.'' \<rparr>"

text \<open>\<open>move-error\<close> (lines 149-151).\<close>

definition on_move_error :: "ChessGame \<Rightarrow> string \<Rightarrow> ChessGame" where
  "on_move_error s errorMsg = s\<lparr> error := errorMsg \<rparr>"

text \<open>\<open>player-disconnected\<close> (lines 153-157).\<close>

definition on_player_disconnected :: "ChessGame \<Rightarrow> GameStatePatch \<Rightarrow> ChessGame" where
  "on_player_disconnected s d =
     s\<lparr> gameState := spread (gameState s) d,
        gameStatus := ''Opponent disconnected. Waiting for new player...'',
        gameOver := False \<rparr>"

text \<open>\<open>game-reset\<close> (lines 159-171).\<close>

definition on_game_reset :: "ChessGame \<Rightarrow> ChessGame" where
  "on_game_reset s =
     s\<lparr> chess := DEFAULT_POSITION,
        fen := DEFAULT_POSITION,
        gameState := \<lparr> gs_fen = DEFAULT_POSITION, currentTurn = White,
                       playerCount = 0, gameStarted = False \<rparr>,
        gameStatus := ''Game reset. Waiting for players...'',
        gameOver := False,
        error := '''' \<rparr>"

text \<open>The subscription as a whole: the handler of the event that arrived.\<close>

fun on_event :: "RulesEngine \<Rightarrow> ChessGame \<Rightarrow> Event \<Rightarrow> ChessGame \<times> Outbound list" where
  "on_event eng s Connect = on_connect s"
| "on_event eng s Disconnect = (on_disconnect s, [])"
| "on_event eng s (PlayerAssigned color gs) = (on_player_assigned eng s color gs, [])"
| "on_event eng s (GameStart f) = (on_game_start eng s f, [])"
| "on_event eng s (PlayerCountUpdate d) = (on_player_count_update s d, [])"
| "on_event eng s (MoveMade d) = (on_move_made eng s d, [])"
| "on_event eng s (GameOver result reason) = (on_game_over s result reason, [])"
| "on_event eng s GameFull = (on_game_full s, [])"
| "on_event eng s (MoveError errorMsg) = (on_move_error s errorMsg, [])"
| "on_event eng s (PlayerDisconnected d) = (on_player_disconnected s d, [])"
| "on_event eng s GameReset = (on_game_reset s, [])"

subsection \<open>Board handlers\<close>

text \<open>\<open>handleMove\<close> (lines 178-191): the drop handler of the board, also called on a click.\<close>

definition handleMove :: "ChessGame \<Rightarrow> square \<Rightarrow> square \<Rightarrow> ChessGame \<times> Outbound list" where
  "handleMove s sourceSquare targetSquare =
     (if \<not> socket s \<or> playerColor s = None
         \<or> Some (currentTurn (gameState s)) \<noteq> playerColor s \<or> gameOver s
      then (s, [])
      else (s\<lparr> error := '''' \<rparr>, [MakeMove sourceSquare targetSquare]))"

text \<open>\<open>handleNewGame\<close> (lines 193-197).\<close>

definition handleNewGame :: "ChessGame \<Rightarrow> ChessGame \<times> Outbound list" where
  "handleNewGame s = (if socket s then (s, [NewGame]) else (s, []))"

text \<open>\<open>isMyTurn\<close> (line 199).\<close>

definition isMyTurn :: "ChessGame \<Rightarrow> bool" where
  "isMyTurn s =
     (playerColor s = Some (currentTurn (gameState s))
      \<and> gameStarted (gameState s) \<and> \<not> gameOver s)"

text \<open>
  \<open>highlightLegalMoves\<close> (lines 201-215). The assignment of line 211 writes into the
  object that \<open>setHighlightedSquares\<close> replaces three lines later, so the next state holds
  the destinations only.
\<close>

definition dest_style :: SquareStyle where
  "dest_style = \<lparr> background = ''rgb(209, 213, 219, 0.8)'',
                  boxShadow = Some ''inset 0 0 0 2px rgb(37, 99, 235)'' \<rparr>"

definition highlightLegalMoves :: "RulesEngine \<Rightarrow> ChessGame \<Rightarrow> square \<Rightarrow> ChessGame" where
  "highlightLegalMoves eng s sq =
     (let moves = chess_moves eng (chess s) sq
      in if moves = [] then s
         else s\<lparr> highlightedSquares :=
                  foldl (\<lambda>highlights m. highlights(mv_to m \<mapsto> dest_style)) Map.empty moves \<rparr>)"

text \<open>\<open>chess.get(square)?.color === (playerColor === 'white' ? 'w' : 'b')\<close>.\<close>

definition own_piece_on :: "RulesEngine \<Rightarrow> ChessGame \<Rightarrow> square \<Rightarrow> bool" where
  "own_piece_on eng s sq =
     (case chess_get eng (chess s) sq of
        None \<Rightarrow> False
      | Some piece \<Rightarrow> pc_color piece = own_letter (playerColor s))"

text \<open>
  \<open>handleSquareClick\<close> (lines 218-245). \<open>if (selectedSquare)\<close> is false for \<open>null\<close> and for
  the empty string. The call of \<open>handleMove\<close> sees the state of the render, and the two
  setters after it clear the selection whether or not it has emitted.
\<close>

definition handleSquareClick ::
  "RulesEngine \<Rightarrow> ChessGame \<Rightarrow> square \<Rightarrow> ChessGame \<times> Outbound list" where
  "handleSquareClick eng s sq =
     (if playerColor s = None \<or> Some (currentTurn (gameState s)) \<noteq> playerColor s \<or> gameOver s
      then (s, [])
      else
        (case (if selectedSquare s = Some [] then None else selectedSquare s) of
           Some sel \<Rightarrow>
             (case find (\<lambda>m. mv_to m = sq) (chess_moves eng (chess s) sel) of
                Some move \<Rightarrow>
                  (let (s1, out) = handleMove s sel sq
                   in (s1\<lparr> selectedSquare := None, highlightedSquares := Map.empty \<rparr>, out))
              | None \<Rightarrow>
                  (if own_piece_on eng s sq
                   then (highlightLegalMoves eng (s\<lparr> selectedSquare := Some sq \<rparr>) sq, [])
                   else (s\<lparr> selectedSquare := None, highlightedSquares := Map.empty \<rparr>, [])))
         | None \<Rightarrow>
             (if own_piece_on eng s sq
              then (highlightLegalMoves eng (s\<lparr> selectedSquare := Some sq \<rparr>) sq, [])
              else (s, []))))"

text \<open>
  \<open>allowDrag\<close> (lines 276-283); \<open>piece\<close> is the widget's piece code (\<open>wP\<close>, \<open>bK\<close>),
  and \<open>charAt(0)\<close> its first character, the empty string for an empty code.
\<close>

definition allowDrag :: "ChessGame \<Rightarrow> string \<Rightarrow> bool" where
  "allowDrag s piece =
     (if playerColor s = None \<or> gameOver s then False
      else gameStarted (gameState s)
           \<and> Some (currentTurn (gameState s)) = playerColor s
           \<and> take 1 piece = own_letter (playerColor s))"

subsection \<open>Phases\<close>

text \<open>
  The component has no phase variable. The phases the specification speaks of are read
  off the flags: ACTIVE is started and not over, OVER is the game-over flag, and
  WAITING_FOR_OPPONENT is not started and not over.
\<close>

definition is_ACTIVE :: "ChessGame \<Rightarrow> bool" where
  "is_ACTIVE s = (gameStarted (gameState s) \<and> \<not> gameOver s)"

definition is_OVER :: "ChessGame \<Rightarrow> bool" where
  "is_OVER s = gameOver s"

definition is_WAITING_FOR_OPPONENT :: "ChessGame \<Rightarrow> bool" where
  "is_WAITING_FOR_OPPONENT s = (\<not> gameStarted (gameState s) \<and> \<not> gameOver s)"

section \<open>Concrete states\<close>

text \<open>The payload of the move \<open>e2-e4\<close>, and a payload that ends the game by checkmate.\<close>

definition e4_played :: MoveData where
  "e4_played =
     \<lparr> md_fen = ''rnbqkbnr/pppppppp/8/8/4P3/8/PPPP1PPP/RNBQKBNR b KQkq - 0 1'',
       md_currentTurn = Black, md_gameOver = False,
       inCheck = False, isCheckmate = False, isDraw = False \<rparr>"

definition black_mated :: MoveData where
  "black_mated =
     \<lparr> md_fen = ''r1bqkb1r/pppp1Qpp/2n2n2/4p3/2B1P3/8/PPPP1PPP/RNB1K1NR b KQkq - 0 4'',
       md_currentTurn = Black, md_gameOver = True,
       inCheck = True, isCheckmate = True, isDraw = False \<rparr>"

text \<open>A payload that says the game is over and gives neither checkmate nor draw.\<close>

definition over_no_outcome :: MoveData where
  "over_no_outcome =
     \<lparr> md_fen = ''rnbqkbnr/pppppppp/8/8/4P3/8/PPPP1PPP/RNBQKBNR b KQkq - 0 1'',
       md_currentTurn = Black, md_gameOver = True,
       inCheck = False, isCheckmate = False, isDraw = False \<rparr>"

text \<open>
  A rules engine for the concrete runs below. It accepts the three positions the runs
  load and throws on every other string; of the starting position it knows the white pawn
  on \<open>e2\<close> and its two moves.
\<close>

definition opening_engine :: RulesEngine where
  "opening_engine =
     \<lparr> chess_load = (\<lambda>f. if f = DEFAULT_POSITION \<or> f = md_fen e4_played
                             \<or> f = md_fen black_mated
                         then Loaded else Throws),
       chess_get = (\<lambda>pos sq. if sq = ''e2''
                        then Some \<lparr> pc_color = ''w'', pc_type = ''p'' \<rparr> else None),
       chess_moves = (\<lambda>pos sq. if sq = ''e2''
                        then [\<lparr> mv_from = ''e2'', mv_to = ''e3'' \<rparr>,
                              \<lparr> mv_from = ''e2'', mv_to = ''e4'' \<rparr>]
                        else []) \<rparr>"

text \<open>The component is mounted and connected, and nothing else has arrived.\<close>

definition connected_unseated :: ChessGame where
  "connected_unseated = fst (on_event opening_engine (mount initial_state) Connect)"

text \<open>Then the server seats the client as white; the game has not started.\<close>

definition waiting_white :: ChessGame where
  "waiting_white =
     fst (on_event opening_engine connected_unseated
       (PlayerAssigned White
          \<lparr> gs_fen = DEFAULT_POSITION, currentTurn = White,
            playerCount = 1, gameStarted = False \<rparr>))"

text \<open>Then the game starts.\<close>

definition active_white :: ChessGame where
  "active_white = fst (on_event opening_engine waiting_white (GameStart DEFAULT_POSITION))"

text \<open>Then the player clicks the pawn on \<open>e2\<close>.\<close>

definition active_white_e2 :: ChessGame where
  "active_white_e2 = fst (handleSquareClick opening_engine active_white ''e2'')"

lemma opening_engine_loads:
  "chess_load opening_engine DEFAULT_POSITION = Loaded"
  "chess_load opening_engine (md_fen e4_played) = Loaded"
  "chess_load opening_engine (md_fen black_mated) = Loaded"
  "chess_load opening_engine (md_fen over_no_outcome) = Loaded"
  by (simp_all add: opening_engine_def e4_played_def over_no_outcome_def)

lemma connected_unseated_eq:
  "connected_unseated = initial_state\<lparr> socket := True, isConnected := True \<rparr>"
  by (simp add: connected_unseated_def on_connect_def mount_def initial_state_def)

lemma waiting_white_eq:
  "waiting_white =
     \<lparr> selectedSquare = None, highlightedSquares = Map.empty, socket = True,
       chess = DEFAULT_POSITION, fen = DEFAULT_POSITION, playerColor = Some White,
       gameState = \<lparr> gs_fen = DEFAULT_POSITION, currentTurn = White,
                     playerCount = 1, gameStarted = False \<rparr>,
       gameStatus = ''You are white. Waiting for opponent...'',
       isConnected = True, error = '''', gameOver = False \<rparr>"
  by (simp add: waiting_white_def connected_unseated_eq on_player_assigned_def
      initial_state_def opening_engine_loads chess_after_load_def)

lemma active_white_eq:
  "active_white =
     \<lparr> selectedSquare = None, highlightedSquares = Map.empty, socket = True,
       chess = DEFAULT_POSITION, fen = DEFAULT_POSITION, playerColor = Some White,
       gameState = \<lparr> gs_fen = DEFAULT_POSITION, currentTurn = White,
                     playerCount = 1, gameStarted = True \<rparr>,
       gameStatus = ''Game started! Good luck!'',
       isConnected = True, error = '''', gameOver = False \<rparr>"
  by (simp add: active_white_def waiting_white_eq on_game_start_def
      opening_engine_loads chess_after_load_def)

lemma active_white_e2_eq:
  "active_white_e2 =
     active_white\<lparr> selectedSquare := Some ''e2'',
                   highlightedSquares := [''e3'' \<mapsto> dest_style, ''e4'' \<mapsto> dest_style] \<rparr>"
  by (simp add: active_white_e2_def active_white_eq handleSquareClick_def own_piece_on_def
      highlightLegalMoves_def opening_engine_def own_letter_def)

lemma click_e4_after_e2:
  "handleSquareClick opening_engine active_white_e2 ''e4'' =
     (active_white, [MakeMove ''e2'' ''e4''])"
  by (simp add: active_white_e2_eq active_white_eq handleSquareClick_def handleMove_def
      opening_engine_def)

section \<open>Who may submit a move\<close>

lemma handleMove_emits_only_eligible:
  "snd (handleMove s a b) \<noteq> [] \<Longrightarrow>
     socket s \<and> playerColor s = Some (currentTurn (gameState s)) \<and> \<not> gameOver s"
  by (auto simp: handleMove_def split: if_splits)

lemma handleSquareClick_emits_only_eligible:
  "snd (handleSquareClick eng s sq) \<noteq> [] \<Longrightarrow>
     socket s \<and> playerColor s = Some (currentTurn (gameState s)) \<and> \<not> gameOver s"
  by (auto simp: handleSquareClick_def handleMove_def split: if_splits option.splits)

lemma handleMove_rejects:
  "\<not> (socket s \<and> playerColor s = Some (currentTurn (gameState s)) \<and> \<not> gameOver s) \<Longrightarrow>
     handleMove s a b = (s, [])"
  by (auto simp: handleMove_def)

lemma handleMove_accepts:
  "socket s \<Longrightarrow> playerColor s = Some (currentTurn (gameState s)) \<Longrightarrow> \<not> gameOver s \<Longrightarrow>
     handleMove s a b = (s\<lparr> error := '''' \<rparr>, [MakeMove a b])"
  by (simp add: handleMove_def)

text \<open>
  C1, as the code has it. A \<open>make-move\<close> message leaves the client, by a drop or by a
  click, only when the socket exists, the local seat is the side to move and the game is
  not over; in a state that fails one of these the submission changes nothing and emits
  nothing. In the ACTIVE phase with the seat to move the drop handler emits exactly one
  \<open>make-move {from, to}\<close> and clears the error, and the state it leaves accepts the
  next submission at once: the client keeps no record of a move that awaits its result.
\<close>

theorem move_intent_gate:
  "(snd (handleMove s a b) \<noteq> [] \<longrightarrow>
      socket s \<and> playerColor s = Some (currentTurn (gameState s)) \<and> \<not> gameOver s)
   \<and> (snd (handleSquareClick eng s sq) \<noteq> [] \<longrightarrow>
      socket s \<and> playerColor s = Some (currentTurn (gameState s)) \<and> \<not> gameOver s)
   \<and> (\<not> (socket s \<and> playerColor s = Some (currentTurn (gameState s)) \<and> \<not> gameOver s) \<longrightarrow>
      handleMove s a b = (s, []) \<and> snd (handleSquareClick eng s sq) = [])
   \<and> (is_ACTIVE s \<and> socket s \<and> playerColor s = Some (currentTurn (gameState s)) \<longrightarrow>
      handleMove s a b = (s\<lparr> error := '''' \<rparr>, [MakeMove a b])
      \<and> snd (handleMove (fst (handleMove s a b)) c d) = [MakeMove c d])"
proof -
  let ?G = "socket s \<and> playerColor s = Some (currentTurn (gameState s)) \<and> \<not> gameOver s"
  have drop: "snd (handleMove s a b) \<noteq> [] \<Longrightarrow> ?G"
    by (rule handleMove_emits_only_eligible)
  have click: "snd (handleSquareClick eng s sq) \<noteq> [] \<Longrightarrow> ?G"
    by (rule handleSquareClick_emits_only_eligible)
  have rej: "\<not> ?G \<Longrightarrow> handleMove s a b = (s, [])"
    by (rule handleMove_rejects)
  have act: "is_ACTIVE s \<and> socket s \<and> playerColor s = Some (currentTurn (gameState s)) \<Longrightarrow>
      handleMove s a b = (s\<lparr> error := '''' \<rparr>, [MakeMove a b])
      \<and> snd (handleMove (fst (handleMove s a b)) c d) = [MakeMove c d]"
    by (simp add: is_ACTIVE_def handleMove_accepts)
  from drop click rej act show ?thesis by blast
qed

text \<open>
  The theorem at two inputs. With the pawn on \<open>e2\<close> selected in the started game, a click
  on \<open>e4\<close> and a drop both emit, and a second drop emits again. Once the game is over
  the same drop and the same click emit nothing.
\<close>

theorem move_intent_gate_witness:
  "snd (handleMove active_white_e2 ''e2'' ''e4'') \<noteq> []
   \<and> snd (handleSquareClick opening_engine active_white_e2 ''e4'') \<noteq> []
   \<and> is_ACTIVE active_white_e2 \<and> socket active_white_e2
   \<and> playerColor active_white_e2 = Some (currentTurn (gameState active_white_e2))
   \<and> \<not> gameOver active_white_e2
   \<and> handleMove active_white_e2 ''e2'' ''e4''
       = (active_white_e2\<lparr> error := '''' \<rparr>, [MakeMove ''e2'' ''e4''])
   \<and> snd (handleMove (fst (handleMove active_white_e2 ''e2'' ''e4'')) ''d2'' ''d4'')
       = [MakeMove ''d2'' ''d4'']
   \<and> gameOver (on_move_made opening_engine active_white_e2 black_mated)
   \<and> handleMove (on_move_made opening_engine active_white_e2 black_mated) ''e2'' ''e4''
       = (on_move_made opening_engine active_white_e2 black_mated, [])
   \<and> snd (handleSquareClick opening_engine (on_move_made opening_engine active_white_e2 black_mated) ''e4'') = []"
proof -
  have sel: "selectedSquare active_white_e2 = Some ''e2''"
    and sock: "socket active_white_e2"
    and seat: "playerColor active_white_e2 = Some (currentTurn (gameState active_white_e2))"
    and live: "\<not> gameOver active_white_e2"
    and act: "is_ACTIVE active_white_e2"
    by (simp_all add: active_white_e2_eq active_white_eq is_ACTIVE_def)
  have out: "snd (handleSquareClick opening_engine active_white_e2 ''e4'') \<noteq> []"
    by (simp add: click_e4_after_e2)
  have "md_gameOver black_mated"
    by (simp add: black_mated_def)
  then have over: "gameOver (on_move_made opening_engine active_white_e2 black_mated)"
    by (simp add: on_move_made_def opening_engine_loads Let_def)
  note emitting = move_intent_gate [of active_white_e2 "''e2''" "''e4''" opening_engine
      "''e4''" "''d2''" "''d4''"]
  note rejecting = move_intent_gate [of "on_move_made opening_engine active_white_e2 black_mated"
      "''e2''" "''e4''" opening_engine "''e4''" "''d2''" "''d4''"]
  from emitting act sock seat
  have accepted: "handleMove active_white_e2 ''e2'' ''e4''
        = (active_white_e2\<lparr> error := '''' \<rparr>, [MakeMove ''e2'' ''e4''])
      \<and> snd (handleMove (fst (handleMove active_white_e2 ''e2'' ''e4'')) ''d2'' ''d4'')
        = [MakeMove ''d2'' ''d4'']"
    by blast
  then have "snd (handleMove active_white_e2 ''e2'' ''e4'') = [MakeMove ''e2'' ''e4'']"
    by simp
  then have drop: "snd (handleMove active_white_e2 ''e2'' ''e4'') \<noteq> []"
    by simp
  from rejecting over
  have rejected: "handleMove (on_move_made opening_engine active_white_e2 black_mated) ''e2'' ''e4''
        = (on_move_made opening_engine active_white_e2 black_mated, [])
      \<and> snd (handleSquareClick opening_engine (on_move_made opening_engine active_white_e2 black_mated) ''e4'')
        = []"
    by blast
  from drop out act sock seat live accepted over rejected show ?thesis
    by blast
qed

text \<open>
  C1, as the specification states it, fails: the claim lets a message out only when no
  move is outstanding. In the started game with white to move, white's drop \<open>e2-e4\<close> is
  emitted, and with no event in between the drop \<open>d2-d4\<close> is emitted too.
\<close>

theorem second_submission_emitted_while_first_unresolved:
  "is_ACTIVE active_white
   \<and> playerColor active_white = Some (currentTurn (gameState active_white))
   \<and> snd (handleMove active_white ''e2'' ''e4'') = [MakeMove ''e2'' ''e4'']
   \<and> snd (handleMove (fst (handleMove active_white ''e2'' ''e4'')) ''d2'' ''d4'')
       = [MakeMove ''d2'' ''d4'']"
  by (simp add: active_white_eq is_ACTIVE_def handleMove_def)

section \<open>The three eligibility checks\<close>

text \<open>
  What each check accepts. The drag check and \<open>isMyTurn\<close> ask for a started game; the
  click check and the submission check do not.
\<close>

lemma allowDrag_iff:
  "allowDrag s piece =
     (playerColor s = Some (currentTurn (gameState s)) \<and> \<not> gameOver s
      \<and> gameStarted (gameState s) \<and> take 1 piece = own_letter (playerColor s))"
  by (auto simp: allowDrag_def)

lemma handleMove_emits_iff:
  "(snd (handleMove s a b) \<noteq> []) =
     (socket s \<and> playerColor s = Some (currentTurn (gameState s)) \<and> \<not> gameOver s)"
  by (auto simp: handleMove_def)

lemma handleSquareClick_ignored:
  "playerColor s = None \<or> Some (currentTurn (gameState s)) \<noteq> playerColor s \<or> gameOver s
     \<Longrightarrow> handleSquareClick eng s sq = (s, [])"
  by (simp add: handleSquareClick_def)

text \<open>
  C2 on the code. The client is seated as white, white is to move, and the game has not
  started (one player is present). The drag check refuses the white pawn and \<open>isMyTurn\<close> is
  false, while the drop handler emits the move, a click on \<open>e2\<close> selects the pawn, and
  the click on \<open>e4\<close> that follows emits the move as well.
\<close>

theorem eligibility_checks_disagree_before_start:
  "\<not> gameStarted (gameState waiting_white)
   \<and> \<not> allowDrag waiting_white ''wP''
   \<and> \<not> isMyTurn waiting_white
   \<and> snd (handleMove waiting_white ''e2'' ''e4'') = [MakeMove ''e2'' ''e4'']
   \<and> selectedSquare (fst (handleSquareClick opening_engine waiting_white ''e2'')) = Some ''e2''
   \<and> snd (handleSquareClick opening_engine
             (fst (handleSquareClick opening_engine waiting_white ''e2'')) ''e4'')
       = [MakeMove ''e2'' ''e4'']"
proof -
  have click: "fst (handleSquareClick opening_engine waiting_white ''e2'') =
      waiting_white\<lparr> selectedSquare := Some ''e2'',
                      highlightedSquares := [''e3'' \<mapsto> dest_style, ''e4'' \<mapsto> dest_style] \<rparr>"
    by (simp add: waiting_white_eq handleSquareClick_def own_piece_on_def
        highlightLegalMoves_def opening_engine_def own_letter_def)
  have "snd (handleSquareClick opening_engine
             (fst (handleSquareClick opening_engine waiting_white ''e2'')) ''e4'')
       = [MakeMove ''e2'' ''e4'']"
    unfolding click
    by (simp add: waiting_white_eq handleSquareClick_def handleMove_def opening_engine_def)
  moreover have "selectedSquare (fst (handleSquareClick opening_engine waiting_white ''e2''))
       = Some ''e2''"
    unfolding click by simp
  moreover have "\<not> gameStarted (gameState waiting_white)"
    and "\<not> allowDrag waiting_white ''wP''" and "\<not> isMyTurn waiting_white"
    and "snd (handleMove waiting_white ''e2'' ''e4'') = [MakeMove ''e2'' ''e4'']"
    by (simp_all add: waiting_white_eq allowDrag_def isMyTurn_def handleMove_def)
  ultimately show ?thesis by blast
qed

text \<open>
  The same run read off the theorem: at this input the guard of \<open>handleMove\<close> lets the
  submission through, the guard of \<open>handleSquareClick\<close> lets the click through, and
  \<open>allowDrag\<close> refuses.
\<close>

theorem eligibility_checks_disagree_before_start_witness:
  "socket waiting_white
   \<and> playerColor waiting_white = Some (currentTurn (gameState waiting_white))
   \<and> \<not> gameOver waiting_white
   \<and> \<not> allowDrag waiting_white ''wP''
   \<and> snd (handleMove waiting_white ''e2'' ''e4'') \<noteq> []
   \<and> fst (handleSquareClick opening_engine waiting_white ''e2'') \<noteq> waiting_white"
proof -
  have "socket waiting_white"
    and "playerColor waiting_white = Some (currentTurn (gameState waiting_white))"
    and "\<not> gameOver waiting_white" and "selectedSquare waiting_white = None"
    by (simp_all add: waiting_white_eq)
  with eligibility_checks_disagree_before_start show ?thesis
    by auto
qed

section \<open>Selection and channel events\<close>

lemma on_player_count_update_selection:
  "selectedSquare (on_player_count_update s d) = selectedSquare s
   \<and> highlightedSquares (on_player_count_update s d) = highlightedSquares s"
  by (simp add: on_player_count_update_def Let_def)

lemma on_move_made_selection:
  "selectedSquare (on_move_made eng s d) = selectedSquare s
   \<and> highlightedSquares (on_move_made eng s d) = highlightedSquares s"
  by (simp add: on_move_made_def Let_def)

lemma on_game_over_selection:
  "selectedSquare (on_game_over s r why) = selectedSquare s
   \<and> highlightedSquares (on_game_over s r why) = highlightedSquares s"
  by (simp add: on_game_over_def Let_def)

text \<open>
  C3, as the code has it. No handler of the socket writes \<open>selectedSquare\<close> or
  \<open>highlightedSquares\<close>: after any channel event, \<open>move-made\<close> and \<open>disconnect\<close>
  among them, the selected square and the highlighted squares are what they were.
\<close>

theorem channel_events_keep_selection:
  "selectedSquare (fst (on_event eng s e)) = selectedSquare s
   \<and> highlightedSquares (fst (on_event eng s e)) = highlightedSquares s"
proof (cases e)
  case (PlayerCountUpdate d)
  then show ?thesis by (simp add: on_player_count_update_selection)
next
  case (MoveMade d)
  then show ?thesis by (simp add: on_move_made_selection)
next
  case (GameOver r why)
  then show ?thesis by (simp add: on_game_over_selection)
qed (simp_all add: on_connect_def on_disconnect_def on_player_assigned_def on_game_start_def
      on_game_full_def on_move_error_def on_player_disconnected_def on_game_reset_def Let_def)

text \<open>
  C3, as the specification states it, fails. With the pawn on \<open>e2\<close> selected and its
  destinations highlighted, the \<open>move-made\<close> event of \<open>e2-e4\<close> leaves \<open>e2\<close> selected and
  \<open>e4\<close> highlighted, and so does a disconnect.
\<close>

theorem selection_survives_move_made_and_disconnect:
  "selectedSquare active_white_e2 = Some ''e2''
   \<and> highlightedSquares active_white_e2 ''e4'' = Some dest_style
   \<and> selectedSquare (fst (on_event opening_engine active_white_e2 (MoveMade e4_played))) = Some ''e2''
   \<and> highlightedSquares (fst (on_event opening_engine active_white_e2 (MoveMade e4_played))) ''e4''
       = Some dest_style
   \<and> selectedSquare (fst (on_event opening_engine active_white_e2 Disconnect)) = Some ''e2''
   \<and> highlightedSquares (fst (on_event opening_engine active_white_e2 Disconnect)) ''e4'' = Some dest_style"
  by (simp add: active_white_e2_eq on_move_made_def on_disconnect_def opening_engine_loads
      Let_def)

section \<open>The move-made handler\<close>

lemma on_move_made_throws:
  "chess_load eng (md_fen d) = Throws \<Longrightarrow> on_move_made eng s d = s"
  by (simp add: on_move_made_def)

lemma on_move_made_position:
  "chess_load eng (md_fen d) = Loaded \<Longrightarrow>
     fen (on_move_made eng s d) = md_fen d \<and> chess (on_move_made eng s d) = md_fen d
     \<and> currentTurn (gameState (on_move_made eng s d)) = md_currentTurn d"
  by (simp add: on_move_made_def chess_after_load_def Let_def)

lemma on_move_made_gameOver:
  "chess_load eng (md_fen d) \<noteq> Throws \<Longrightarrow>
     gameOver (on_move_made eng s d) = (gameOver s \<or> md_gameOver d)"
  by (simp add: on_move_made_def Let_def)

lemma on_move_made_gameStatus:
  "chess_load eng (md_fen d) \<noteq> Throws \<Longrightarrow>
   gameStatus (on_move_made eng s d) =
     (if md_gameOver d then
        (if isCheckmate d then
           (if md_currentTurn d = White then ''Checkmate! Black wins!''
            else ''Checkmate! White wins!'')
         else if isDraw d then ''Game ended in a draw''
         else gameStatus s)
      else if inCheck d then side_name (md_currentTurn d) @ '' is in check!''
      else side_name (md_currentTurn d) @ [CHR 0x27] @ ''s turn'')"
  by (simp add: on_move_made_def Let_def)

lemma on_move_made_any_seat:
  "on_move_made eng (s\<lparr> playerColor := pc \<rparr>) d = (on_move_made eng s d)\<lparr> playerColor := pc \<rparr>"
  by (simp add: on_move_made_def Let_def)

lemma on_move_made_rest:
  "playerColor (on_move_made eng s d) = playerColor s
   \<and> socket (on_move_made eng s d) = socket s
   \<and> gameStarted (gameState (on_move_made eng s d)) = gameStarted (gameState s)
   \<and> playerCount (gameState (on_move_made eng s d)) = playerCount (gameState s)"
  by (simp add: on_move_made_def Let_def)

text \<open>
  C4, as the code has it. The \<open>move-made\<close> handler has no guard on the phase or the seat:
  when chess.js accepts the FEN of the payload, then in every state, the one before any
  seat assignment included, the handler takes the position and the side to move from the
  payload, sets the game-over flag when the payload says so, and derives the status from
  the payload's flags. What it does is the same whatever the seat is.
\<close>

theorem move_made_applied_in_every_state:
  assumes "chess_load eng (md_fen d) = Loaded"
  shows "fen (on_move_made eng s d) = md_fen d
   \<and> chess (on_move_made eng s d) = md_fen d
   \<and> currentTurn (gameState (on_move_made eng s d)) = md_currentTurn d
   \<and> gameOver (on_move_made eng s d) = (gameOver s \<or> md_gameOver d)
   \<and> gameStatus (on_move_made eng s d) =
       (if md_gameOver d then
          (if isCheckmate d then
             (if md_currentTurn d = White then ''Checkmate! Black wins!''
              else ''Checkmate! White wins!'')
           else if isDraw d then ''Game ended in a draw''
           else gameStatus s)
        else if inCheck d then side_name (md_currentTurn d) @ '' is in check!''
        else side_name (md_currentTurn d) @ [CHR 0x27] @ ''s turn'')
   \<and> on_move_made eng (s\<lparr> playerColor := None \<rparr>) d = (on_move_made eng s d)\<lparr> playerColor := None \<rparr>"
proof -
  from assms have live: "chess_load eng (md_fen d) \<noteq> Throws"
    by simp
  from on_move_made_position [OF assms, of s] on_move_made_gameOver [OF live, of s]
    on_move_made_gameStatus [OF live, of s] on_move_made_any_seat [of eng None s d]
  show ?thesis by blast
qed

text \<open>
  The theorem on the client that is connected and has no seat, at the payload of
  \<open>e2-e4\<close>, whose FEN the engine accepts.
\<close>

theorem move_made_applied_in_every_state_witness:
  "chess_load opening_engine (md_fen e4_played) = Loaded
   \<and> playerColor connected_unseated = None
   \<and> fen (on_move_made opening_engine connected_unseated e4_played)
       = ''rnbqkbnr/pppppppp/8/8/4P3/8/PPPP1PPP/RNBQKBNR b KQkq - 0 1''
   \<and> chess (on_move_made opening_engine connected_unseated e4_played)
       = ''rnbqkbnr/pppppppp/8/8/4P3/8/PPPP1PPP/RNBQKBNR b KQkq - 0 1''
   \<and> currentTurn (gameState (on_move_made opening_engine connected_unseated e4_played)) = Black
   \<and> \<not> gameOver (on_move_made opening_engine connected_unseated e4_played)
   \<and> gameStatus (on_move_made opening_engine connected_unseated e4_played)
       = ''Black'' @ [CHR 0x27] @ ''s turn''"
proof -
  have ok: "chess_load opening_engine (md_fen e4_played) = Loaded"
    by (rule opening_engine_loads)
  have seat: "playerColor connected_unseated = None"
    and live: "\<not> gameOver connected_unseated"
    by (simp_all add: connected_unseated_eq initial_state_def)
  have payload: "md_fen e4_played = ''rnbqkbnr/pppppppp/8/8/4P3/8/PPPP1PPP/RNBQKBNR b KQkq - 0 1''"
    "md_currentTurn e4_played = Black" "\<not> md_gameOver e4_played" "\<not> inCheck e4_played"
    by (simp_all add: e4_played_def)
  from move_made_applied_in_every_state [OF ok, of connected_unseated] ok seat live payload
  show ?thesis by (simp add: side_name_def)
qed

text \<open>
  C4, as the specification states it, fails. The client is connected and has no seat; the
  \<open>move-made\<close> event of \<open>e2-e4\<close> replaces its position, its side to move and its status.
\<close>

theorem move_made_before_seat_is_applied:
  "playerColor connected_unseated = None
   \<and> fen connected_unseated = DEFAULT_POSITION
   \<and> currentTurn (gameState connected_unseated) = White
   \<and> gameStatus connected_unseated = ''Waiting for players...''
   \<and> fen (fst (on_event opening_engine connected_unseated (MoveMade e4_played)))
       = ''rnbqkbnr/pppppppp/8/8/4P3/8/PPPP1PPP/RNBQKBNR b KQkq - 0 1''
   \<and> fen (fst (on_event opening_engine connected_unseated (MoveMade e4_played)))
       \<noteq> fen connected_unseated
   \<and> currentTurn (gameState (fst (on_event opening_engine connected_unseated
         (MoveMade e4_played)))) = Black
   \<and> gameStatus (fst (on_event opening_engine connected_unseated (MoveMade e4_played)))
       = ''Black'' @ [CHR 0x27] @ ''s turn''"
  by (simp add: connected_unseated_eq initial_state_def on_move_made_def e4_played_def
      opening_engine_def DEFAULT_POSITION_def side_name_def Let_def)

text \<open>
  C5. In the ACTIVE phase, a \<open>move-made\<close> payload with \<open>gameOver\<close> and \<open>isCheckmate\<close>
  set, whose FEN chess.js accepts, leads to the OVER phase, and the status names as winner
  the side that is not to move: white when the payload's side to move is black, black
  when it is white.
\<close>

theorem checkmate_winner_is_other_side:
  assumes "is_ACTIVE s" and "md_gameOver d" and "isCheckmate d"
    and "chess_load eng (md_fen d) = Loaded"
  shows "is_OVER (on_move_made eng s d)
         \<and> gameStatus (on_move_made eng s d) =
             (if md_currentTurn d = Black then ''Checkmate! White wins!''
              else ''Checkmate! Black wins!'')"
proof -
  from assms(4) have live: "chess_load eng (md_fen d) \<noteq> Throws"
    by simp
  have "is_OVER (on_move_made eng s d)"
    using assms(2) by (simp add: is_OVER_def on_move_made_gameOver [OF live])
  moreover have "gameStatus (on_move_made eng s d) =
      (if md_currentTurn d = Black then ''Checkmate! White wins!''
       else ''Checkmate! Black wins!'')"
    using assms(2,3)
    by (cases "md_currentTurn d") (simp_all add: on_move_made_gameStatus [OF live])
  ultimately show ?thesis by simp
qed

theorem checkmate_winner_is_other_side_witness:
  "is_ACTIVE active_white \<and> md_gameOver black_mated \<and> isCheckmate black_mated
   \<and> chess_load opening_engine (md_fen black_mated) = Loaded
   \<and> md_currentTurn black_mated = Black
   \<and> is_OVER (on_move_made opening_engine active_white black_mated)
   \<and> gameStatus (on_move_made opening_engine active_white black_mated)
       = ''Checkmate! White wins!''"
proof -
  have a: "is_ACTIVE active_white"
    by (simp add: active_white_eq is_ACTIVE_def)
  have b: "md_gameOver black_mated" and c: "isCheckmate black_mated"
    and t: "md_currentTurn black_mated = Black"
    by (simp_all add: black_mated_def)
  have ok: "chess_load opening_engine (md_fen black_mated) = Loaded"
    by (rule opening_engine_loads)
  from checkmate_winner_is_other_side [OF a b c ok] a b c t ok show ?thesis by simp
qed

text \<open>
  C9. The \<open>move-made\<close> handler is idempotent: the same payload processed twice leaves the
  whole component state as processing it once does, whether chess.js accepts the FEN of
  the payload or refuses it.
\<close>

theorem move_made_idempotent:
  "on_move_made eng (on_move_made eng s d) d = on_move_made eng s d"
  by (simp add: on_move_made_def chess_after_load_def Let_def)

text \<open>
  C10. A \<open>move-made\<close> payload with \<open>gameOver\<close> set and neither \<open>isCheckmate\<close> nor
  \<open>isDraw\<close>, whose FEN chess.js accepts, sets the game-over flag and leaves the status
  message as it was; after it neither a drop nor a click emits a move, and no piece can
  be dragged.
\<close>

theorem game_over_without_outcome:
  assumes "md_gameOver d" and "\<not> isCheckmate d" and "\<not> isDraw d"
    and "chess_load eng (md_fen d) = Loaded"
  shows "gameOver (on_move_made eng s d)
         \<and> is_OVER (on_move_made eng s d)
         \<and> gameStatus (on_move_made eng s d) = gameStatus s
         \<and> handleMove (on_move_made eng s d) a b = (on_move_made eng s d, [])
         \<and> handleSquareClick eng' (on_move_made eng s d) sq = (on_move_made eng s d, [])
         \<and> \<not> allowDrag (on_move_made eng s d) piece"
proof -
  from assms(4) have live: "chess_load eng (md_fen d) \<noteq> Throws"
    by simp
  have over: "gameOver (on_move_made eng s d)"
    using assms(1) by (simp add: on_move_made_gameOver [OF live])
  have drag: "\<not> allowDrag (on_move_made eng s d) piece"
    using over by (simp add: allowDrag_def)
  have status: "gameStatus (on_move_made eng s d) = gameStatus s"
    using assms(1,2,3) by (simp add: on_move_made_gameStatus [OF live])
  have drop: "handleMove (on_move_made eng s d) a b = (on_move_made eng s d, [])"
    using over by (simp add: handleMove_rejects)
  have click: "handleSquareClick eng' (on_move_made eng s d) sq = (on_move_made eng s d, [])"
    using over by (simp add: handleSquareClick_ignored)
  from over status drop click drag show ?thesis by (simp add: is_OVER_def)
qed

theorem game_over_without_outcome_witness:
  "md_gameOver over_no_outcome \<and> \<not> isCheckmate over_no_outcome \<and> \<not> isDraw over_no_outcome
   \<and> chess_load opening_engine (md_fen over_no_outcome) = Loaded
   \<and> gameOver (on_move_made opening_engine active_white_e2 over_no_outcome)
   \<and> gameStatus (on_move_made opening_engine active_white_e2 over_no_outcome)
       = ''Game started! Good luck!''
   \<and> handleMove (on_move_made opening_engine active_white_e2 over_no_outcome) ''e2'' ''e4''
       = (on_move_made opening_engine active_white_e2 over_no_outcome, [])
   \<and> handleSquareClick opening_engine
         (on_move_made opening_engine active_white_e2 over_no_outcome) ''e4''
       = (on_move_made opening_engine active_white_e2 over_no_outcome, [])
   \<and> \<not> allowDrag (on_move_made opening_engine active_white_e2 over_no_outcome) ''wP''"
proof -
  have h: "md_gameOver over_no_outcome" "\<not> isCheckmate over_no_outcome"
    "\<not> isDraw over_no_outcome"
    by (simp_all add: over_no_outcome_def)
  have ok: "chess_load opening_engine (md_fen over_no_outcome) = Loaded"
    by (rule opening_engine_loads)
  have st: "gameStatus active_white_e2 = ''Game started! Good luck!''"
    by (simp add: active_white_e2_eq active_white_eq)
  from game_over_without_outcome [OF h ok, of active_white_e2 "''e2''" "''e4''"
      opening_engine "''e4''" "''wP''"] h ok st
  show ?thesis by simp
qed

section \<open>Reset, start and move errors\<close>

text \<open>
  C8. A \<open>game-reset\<close> event, in every state, sets the position to the starting position,
  clears the game-over flag and the status of the finished game, sets the player count to
  0 and the game to not started, which is the phase WAITING_FOR_OPPONENT, and leaves the
  seat (\<open>playerColor\<close>) as it was.
\<close>

theorem game_reset_effect:
  "fen (on_game_reset s) = DEFAULT_POSITION
   \<and> chess (on_game_reset s) = DEFAULT_POSITION
   \<and> fen (on_game_reset s) = fen initial_state
   \<and> gs_fen (gameState (on_game_reset s)) = DEFAULT_POSITION
   \<and> currentTurn (gameState (on_game_reset s)) = White
   \<and> \<not> gameOver (on_game_reset s)
   \<and> gameStatus (on_game_reset s) = ''Game reset. Waiting for players...''
   \<and> playerCount (gameState (on_game_reset s)) = 0
   \<and> \<not> gameStarted (gameState (on_game_reset s))
   \<and> is_WAITING_FOR_OPPONENT (on_game_reset s)
   \<and> playerColor (on_game_reset s) = playerColor s
   \<and> fst (on_event eng s GameReset) = on_game_reset s"
  by (simp add: on_game_reset_def is_WAITING_FOR_OPPONENT_def initial_state_def)

text \<open>
  C6. From every state, \<open>game-reset\<close> followed at once by \<open>game-start\<close> with a position
  \<open>P0\<close> that chess.js accepts leaves the displayed position and the position of the rules
  engine at \<open>P0\<close>, with the game started and not over: the phase ACTIVE.
\<close>

theorem reset_then_start:
  assumes "chess_load eng P0 = Loaded"
  shows "fen (fst (on_event eng (fst (on_event eng s GameReset)) (GameStart P0))) = P0
   \<and> chess (fst (on_event eng (fst (on_event eng s GameReset)) (GameStart P0))) = P0
   \<and> gameStarted (gameState (fst (on_event eng (fst (on_event eng s GameReset)) (GameStart P0))))
   \<and> \<not> gameOver (fst (on_event eng (fst (on_event eng s GameReset)) (GameStart P0)))
   \<and> is_ACTIVE (fst (on_event eng (fst (on_event eng s GameReset)) (GameStart P0)))"
  using assms
  by (simp add: on_game_reset_def on_game_start_def chess_after_load_def is_ACTIVE_def Let_def)

text \<open>
  The theorem on the client whose game has just ended in checkmate: the reset and a
  start with the position after \<open>e2-e4\<close>.
\<close>

theorem reset_then_start_witness:
  "chess_load opening_engine (md_fen e4_played) = Loaded
   \<and> is_OVER (on_move_made opening_engine active_white black_mated)
   \<and> fen (fst (on_event opening_engine
         (fst (on_event opening_engine (on_move_made opening_engine active_white black_mated)
                GameReset))
         (GameStart (md_fen e4_played))))
       = ''rnbqkbnr/pppppppp/8/8/4P3/8/PPPP1PPP/RNBQKBNR b KQkq - 0 1''
   \<and> is_ACTIVE (fst (on_event opening_engine
         (fst (on_event opening_engine (on_move_made opening_engine active_white black_mated)
                GameReset))
         (GameStart (md_fen e4_played))))"
proof -
  have ok: "chess_load opening_engine (md_fen e4_played) = Loaded"
    by (rule opening_engine_loads)
  have "md_gameOver black_mated"
    by (simp add: black_mated_def)
  then have over: "is_OVER (on_move_made opening_engine active_white black_mated)"
    by (simp add: is_OVER_def on_move_made_gameOver opening_engine_loads)
  have pos: "md_fen e4_played = ''rnbqkbnr/pppppppp/8/8/4P3/8/PPPP1PPP/RNBQKBNR b KQkq - 0 1''"
    by (simp add: e4_played_def)
  from reset_then_start [OF ok, of "on_move_made opening_engine active_white black_mated"]
    ok over pos
  show ?thesis by simp
qed

text \<open>
  C7. A \<open>move-error\<close> event writes the error message and nothing else: the position, the
  side to move, the seat, the player count, the started flag and the game-over flag are
  unchanged. The component has no flag for a move that awaits its result; the state a
  submission leaves is ACTIVE exactly when the state before it was, it stays so after the
  \<open>move-error\<close>, and its position is the one before the submission.
\<close>

theorem move_error_changes_error_only:
  "on_move_error s msg = s\<lparr> error := msg \<rparr>
   \<and> error (on_move_error s msg) = msg
   \<and> fen (on_move_error s msg) = fen s
   \<and> chess (on_move_error s msg) = chess s
   \<and> gameState (on_move_error s msg) = gameState s
   \<and> playerColor (on_move_error s msg) = playerColor s
   \<and> gameOver (on_move_error s msg) = gameOver s
   \<and> gameStatus (on_move_error s msg) = gameStatus s
   \<and> is_ACTIVE (on_move_error (fst (handleMove s a b)) msg) = is_ACTIVE s
   \<and> fen (on_move_error (fst (handleMove s a b)) msg) = fen s
   \<and> gameState (on_move_error (fst (handleMove s a b)) msg) = gameState s"
  by (simp add: on_move_error_def handleMove_def is_ACTIVE_def)

text \<open>
  The theorem on a run: white submits \<open>e2-e5\<close> in the started game and the server
  answers with a \<open>move-error\<close>.
\<close>

theorem move_error_changes_error_only_witness:
  "is_ACTIVE active_white
   \<and> snd (handleMove active_white ''e2'' ''e5'') = [MakeMove ''e2'' ''e5'']
   \<and> is_ACTIVE (on_move_error (fst (handleMove active_white ''e2'' ''e5'')) ''Invalid move'')
   \<and> fen (on_move_error (fst (handleMove active_white ''e2'' ''e5'')) ''Invalid move'')
       = DEFAULT_POSITION
   \<and> gameState (on_move_error (fst (handleMove active_white ''e2'' ''e5'')) ''Invalid move'')
       = gameState active_white
   \<and> error (on_move_error active_white ''Invalid move'') = ''Invalid move''"
proof -
  have act: "is_ACTIVE active_white" and pos: "fen active_white = DEFAULT_POSITION"
    and out: "snd (handleMove active_white ''e2'' ''e5'') = [MakeMove ''e2'' ''e5'']"
    by (simp_all add: active_white_eq is_ACTIVE_def handleMove_def)
  from move_error_changes_error_only [of active_white "''Invalid move''" "''e2''" "''e5''"]
    act pos out
  show ?thesis by simp
qed

end
